theory Spec2Isabelle
  imports Complex_Main
begin

section \<open>Python values used by the job scraper\<close>

text \<open>
  The development embeds \<^verbatim>\<open>docsim.py\<close> (the relevance scorer \<^verbatim>\<open>rate_text\<close>) and the
  pipeline of \<^verbatim>\<open>main.py\<close> (\<^verbatim>\<open>get_job_cards\<close>, \<^verbatim>\<open>get_job_info\<close>, \<^verbatim>\<open>extractDescription\<close>,
  \<^verbatim>\<open>rate_job\<close>, \<^verbatim>\<open>extractJobs\<close>, \<^verbatim>\<open>create_time_param\<close>).

  A Python \<^verbatim>\<open>str\<close> is a sequence of code points. It is modelled by \<^typ>\<open>string\<close>, each
  \<^typ>\<open>char\<close> standing for the code point of the same number, so the embedding covers the
  texts over the code points 0 to 255. On these code points the character classes below
  (\<^verbatim>\<open>\w\<close> of the \<^verbatim>\<open>re\<close> module, \<^verbatim>\<open>str.lower\<close>, \<^verbatim>\<open>str.isspace\<close>) are the ones of CPython 3.

  Every exception the code can raise is a value of \<open>error\<close>; a function that can raise
  returns \<open>error + 'a\<close>, with \<open>Inl\<close> for the exception.
\<close>

datatype error =
    ZeroDivisionError
  | UnboundLocalError
  | AttributeError
  | TypeError
  | KeyError
  | ConnectionError

subsection \<open>Floats\<close>

text \<open>
  A Python \<^verbatim>\<open>float\<close> is an IEEE 754 binary64 number. A finite one is modelled by the
  rational number it denotes. Every arithmetic operation computes the exact result and
  rounds it to the nearest number with a 53 bit significand, ties going to the even
  significand (\<open>fl\<close>). The exponent is not bounded: the quotients of list lengths that the
  scorer computes are far from the overflow and underflow thresholds of binary64.
\<close>

type_synonym pyfloat = rat

function bit_length :: "int \<Rightarrow> int" where
  "bit_length n = (if n \<le> 0 then 0 else 1 + bit_length (n div 2))"
  by pat_completeness auto
termination
  by (relation "measure nat") auto

declare bit_length.simps [simp del]

definition pow2 :: "int \<Rightarrow> rat" where
  "pow2 e = (if 0 \<le> e then 2 ^ nat e else 1 / 2 ^ nat (- e))"

text \<open>\<open>ilog2 x\<close> is the exponent \<open>e\<close> with \<open>2 ^ e \<le> x < 2 ^ (e + 1)\<close>, for positive \<open>x\<close>.\<close>

definition ilog2 :: "rat \<Rightarrow> int" where
  "ilog2 x =
     (let (a, b) = quotient_of x;
          d = bit_length a - bit_length b
      in if pow2 d \<le> x then d else d - 1)"

definition round_half_even :: "rat \<Rightarrow> int" where
  "round_half_even q =
     (let f = \<lfloor>q\<rfloor>; r = q - of_int f
      in if r < 1 / 2 then f
         else if 1 / 2 < r then f + 1
         else if even f then f else f + 1)"

definition fl :: "rat \<Rightarrow> pyfloat" where
  "fl x =
     (if x = 0 then 0
      else let e = ilog2 \<bar>x\<bar>; u = pow2 (e - 52)
           in of_int (round_half_even (x / u)) * u)"

text \<open>\<^verbatim>\<open>a / b\<close> on two \<^verbatim>\<open>int\<close>s: the correctly rounded quotient, or \<^verbatim>\<open>ZeroDivisionError\<close>.\<close>

definition truediv :: "int \<Rightarrow> int \<Rightarrow> error + pyfloat" where
  "truediv a b = (if b = 0 then Inl ZeroDivisionError else Inr (fl (of_int a / of_int b)))"

definition float_mul :: "pyfloat \<Rightarrow> pyfloat \<Rightarrow> pyfloat" where
  "float_mul x y = fl (x * y)"

definition float_add :: "pyfloat \<Rightarrow> pyfloat \<Rightarrow> pyfloat" where
  "float_add x y = fl (x + y)"

text \<open>\<^verbatim>\<open>round(x)\<close> with one argument: the nearest \<^verbatim>\<open>int\<close>, ties going to the even one.\<close>

definition py_round :: "pyfloat \<Rightarrow> int" where
  "py_round x = round_half_even x"

subsection \<open>Strings\<close>

text \<open>\<^verbatim>\<open>\w\<close> in a \<^verbatim>\<open>str\<close> pattern: the alphanumeric code points and the underscore.\<close>

definition is_word :: "char \<Rightarrow> bool" where
  "is_word c =
     (let n = (of_char c :: nat)
      in (48 \<le> n \<and> n \<le> 57) \<or> (65 \<le> n \<and> n \<le> 90) \<or> n = 95 \<or> (97 \<le> n \<and> n \<le> 122)
         \<or> n = 170 \<or> n = 178 \<or> n = 179 \<or> n = 181 \<or> n = 185 \<or> n = 186
         \<or> (188 \<le> n \<and> n \<le> 190) \<or> (192 \<le> n \<and> n \<le> 214) \<or> (216 \<le> n \<and> n \<le> 246)
         \<or> 248 \<le> n)"

text \<open>
  The code points with a different lower-case form are \<^verbatim>\<open>A\<close> to \<^verbatim>\<open>Z\<close> and the capital
  letters of the upper half (192 to 222 without the multiplication sign 215); the lower-case
  form is 32 further.
\<close>

definition is_upper_cp :: "nat \<Rightarrow> bool" where
  "is_upper_cp n = ((65 \<le> n \<and> n \<le> 90) \<or> (192 \<le> n \<and> n \<le> 214) \<or> (216 \<le> n \<and> n \<le> 222))"

definition lower_char :: "char \<Rightarrow> char" where
  "lower_char c = (let n = (of_char c :: nat) in if is_upper_cp n then char_of (n + 32) else c)"

definition lower :: "string \<Rightarrow> string" where
  "lower s = map lower_char s"

text \<open>
  \<^verbatim>\<open>re.findall(r'\b\w+\b', text)\<close> scans the text from the left. Where a word character
  stands, the greedy \<^verbatim>\<open>\w+\<close> takes the whole run of word characters (the position is a word
  boundary, being the start of the text or just behind a character that is not a word
  character, and so is the end of the run); the scan goes on behind the match. Any other
  character is skipped.
\<close>

function findall_words :: "string \<Rightarrow> string list" where
  "findall_words [] = []"
| "findall_words (c # cs) =
     (if is_word c then takeWhile is_word (c # cs) # findall_words (dropWhile is_word cs)
      else findall_words cs)"
  by pat_completeness auto
termination
  by (relation "measure length") (auto simp: le_imp_less_Suc length_dropWhile_le)

subsection \<open>collections.Counter\<close>

text \<open>
  A \<^verbatim>\<open>Counter\<close> is a dictionary from elements to counts, filled by going through the
  elements; reading a key that is missing gives 0 and raises nothing.
\<close>

type_synonym counter = "string \<rightharpoonup> nat"

definition counter_incr :: "counter \<Rightarrow> string \<Rightarrow> counter" where
  "counter_incr d w = d(w \<mapsto> (case d w of None \<Rightarrow> 1 | Some k \<Rightarrow> k + 1))"

definition Counter :: "string list \<Rightarrow> counter" where
  "Counter ws = foldl counter_incr Map.empty ws"

definition counter_getitem :: "counter \<Rightarrow> string \<Rightarrow> nat" where
  "counter_getitem d w = (case d w of None \<Rightarrow> 0 | Some k \<Rightarrow> k)"

section \<open>docsim.py: the relevance scorer\<close>

text \<open>
  The generator expression under \<^verbatim>\<open>sum\<close> of \<^verbatim>\<open>rate_text\<close>: the count of every keyword of
  \<^verbatim>\<open>plavra\<close>, lower-cased, in the counter of the text's words.

  In \<^verbatim>\<open>rate_text\<close> the normalized rating of a text without words is the \<^verbatim>\<open>int\<close> 0, and so is
  the product with 5; the \<^verbatim>\<open>print\<close> of the score is output only and is left out.
\<close>

definition cumulative_frequency :: "counter \<Rightarrow> string list \<Rightarrow> nat" where
  "cumulative_frequency word_count plavra =
     sum_list (map (\<lambda>word. counter_getitem word_count (lower word)) plavra)"

definition rate_text :: "string list \<Rightarrow> string \<Rightarrow> error + pyfloat" where
  "rate_text plavra text =
     (let text' = lower text;
          words = findall_words text';
          word_count = Counter words;
          cum = cumulative_frequency word_count plavra;
          max_cumulative_frequency = length words
      in case (if max_cumulative_frequency \<noteq> 0
               then truediv (int cum) (int max_cumulative_frequency)
               else Inr 0) of
           Inl e \<Rightarrow> Inl e
         | Inr normalized_rating \<Rightarrow> Inr (float_mul normalized_rating 5))"

section \<open>main.py: rating a job\<close>

definition rate_job :: "string \<Rightarrow> string list \<Rightarrow> error + int" where
  "rate_job job_description plavras =
     (if plavras = [] then Inr 0
      else case rate_text plavras job_description of
             Inl e \<Rightarrow> Inl e
           | Inr rating \<Rightarrow> Inr (py_round rating))"

section \<open>main.py: the pipeline\<close>

subsection \<open>Pages and listing entries\<close>

text \<open>
  \<^verbatim>\<open>str.strip()\<close> removes the white space at both ends.
\<close>

definition is_space :: "char \<Rightarrow> bool" where
  "is_space c =
     (let n = (of_char c :: nat)
      in (9 \<le> n \<and> n \<le> 13) \<or> (28 \<le> n \<and> n \<le> 32) \<or> n = 133 \<or> n = 160)"

definition strip :: "string \<Rightarrow> string" where
  "strip s = rev (dropWhile is_space (rev (dropWhile is_space s)))"

text \<open>
  The pipeline reads a parsed document only through a few \<^verbatim>\<open>find\<close> calls. A listing entry
  (one \<^verbatim>\<open>li\<close> of a results page) is the record of what \<^verbatim>\<open>get_job_info\<close> looks up
  in it, \<open>None\<close> standing for a \<^verbatim>\<open>find\<close> that returns \<^verbatim>\<open>None\<close>:
  \<^item> \<open>title_h3\<close>: the text of \<^verbatim>\<open>h3.base-search-card__title\<close>;
  \<^item> \<open>anchor\<close>: the first \<^verbatim>\<open>a\<close> element, as its \<^verbatim>\<open>href\<close> attribute (\<open>Some None\<close> for an
    \<^verbatim>\<open>a\<close> without \<^verbatim>\<open>href\<close>);
  \<^item> \<open>location_span\<close>: the text of \<^verbatim>\<open>span.job-search-card__location\<close>;
  \<^item> \<open>subtitle_h4\<close>: the text of \<^verbatim>\<open>h4.base-search-card__subtitle\<close>;
  \<^item> \<open>time_tag\<close>: the text of the \<^verbatim>\<open>time\<close> element.
\<close>

record card =
  title_h3 :: "string option"
  anchor :: "string option option"
  location_span :: "string option"
  subtitle_h4 :: "string option"
  time_tag :: "string option"

text \<open>
  A fetched document is what the two fetchers look up in it: the \<^verbatim>\<open>li\<close> elements under
  \<^verbatim>\<open>ul.jobs-search__results-list\<close> (\<open>None\<close> without such a list), all \<^verbatim>\<open>li\<close> elements of
  the document, and the text of \<^verbatim>\<open>div.show-more-less-html__markup\<close>.
\<close>

record soup =
  results_list :: "card list option"
  all_li :: "card list"
  description_div :: "string option"

text \<open>
  The network is a parameter of the model: \<open>requests_get url\<close> is the outcome of
  \<^verbatim>\<open>requests.get(url)\<close> followed by the parse of the response body, either an exception or
  the document. The pacing delays (\<^verbatim>\<open>time.sleep\<close>) change no value and are left out.
\<close>

type_synonym web = "string \<Rightarrow> error + soup"

text \<open>\<^verbatim>\<open>dayPosted\<close> is the text of the \<^verbatim>\<open>time\<close> element or \<^verbatim>\<open>False\<close>.\<close>

datatype str_or_false = Str string | PyFalse

record job =
  jobTitle :: string
  companyName :: string
  dayPosted :: str_or_false
  jobURL :: string
  rating :: int
  location :: string
  jobDesc :: string

subsection \<open>The fetchers\<close>

text \<open>
  \<^verbatim>\<open>get_job_cards\<close> calls \<^verbatim>\<open>requests.get\<close> outside of any \<^verbatim>\<open>try\<close>: its exception leaves
  the function.
\<close>

definition get_job_cards :: "web \<Rightarrow> string \<Rightarrow> error + card list" where
  "get_job_cards requests_get url =
     (case requests_get url of
        Inl e \<Rightarrow> Inl e
      | Inr page \<Rightarrow>
          Inr (case results_list page of
                 Some cards \<Rightarrow> cards
               | None \<Rightarrow> all_li page))"

text \<open>
  \<^verbatim>\<open>extractDescription\<close> returns a dictionary: with the key \<^verbatim>\<open>description\<close> when the
  fetch went through, empty when anything in its \<^verbatim>\<open>try\<close> raised.
\<close>

definition extractDescription :: "web \<Rightarrow> string \<Rightarrow> (string \<rightharpoonup> string)" where
  "extractDescription requests_get url =
     (case requests_get url of
        Inl e \<Rightarrow> Map.empty
      | Inr page \<Rightarrow>
          (let description =
                 (case description_div page of
                    Some t \<Rightarrow> strip t
                  | None \<Rightarrow> ''no description specified'')
           in Map.empty(''description'' \<mapsto> description)))"

subsection \<open>One listing entry\<close>

text \<open>
  The title and the link are read outside of any \<^verbatim>\<open>try\<close>: \<^verbatim>\<open>None.text\<close> raises
  \<^verbatim>\<open>AttributeError\<close>, \<^verbatim>\<open>None['href']\<close> raises \<^verbatim>\<open>TypeError\<close>, a missing attribute raises
  \<^verbatim>\<open>KeyError\<close>, and so does \<^verbatim>\<open>jobDesc['description']\<close> on the empty dictionary. The other
  three fields have a default.
\<close>

definition get_job_info :: "web \<Rightarrow> card \<Rightarrow> string list \<Rightarrow> error + job" where
  "get_job_info requests_get entry plavras =
     (case title_h3 entry of
        None \<Rightarrow> Inl AttributeError
      | Some t \<Rightarrow>
          (case anchor entry of
             None \<Rightarrow> Inl TypeError
           | Some None \<Rightarrow> Inl KeyError
           | Some (Some href) \<Rightarrow>
               (let loc = (case location_span entry of
                             Some l \<Rightarrow> strip l
                           | None \<Rightarrow> ''location not given'');
                    desc = extractDescription requests_get href;
                    company = (case subtitle_h4 entry of
                                 Some c \<Rightarrow> strip c
                               | None \<Rightarrow> ''Not specified'');
                    posted = (case time_tag entry of
                                Some d \<Rightarrow> Str (strip d)
                              | None \<Rightarrow> PyFalse)
                in case desc ''description'' of
                     None \<Rightarrow> Inl KeyError
                   | Some description \<Rightarrow>
                       (case rate_job description plavras of
                          Inl e \<Rightarrow> Inl e
                        | Inr r \<Rightarrow>
                            Inr \<lparr>jobTitle = strip t, companyName = company, dayPosted = posted,
                                 jobURL = href, rating = r, location = loc,
                                 jobDesc = description\<rparr>))))"

subsection \<open>The orchestrator\<close>

text \<open>
  \<^verbatim>\<open>list(executor.map(f, xs))\<close>, once the \<^verbatim>\<open>with\<close> block has waited for every task: the
  iterator yields the results in the order of \<open>xs\<close> and raises the exception of the first
  task that failed, so the list is built only if no task raised. The tasks share no state,
  so their values do not depend on the scheduling.
\<close>

fun executor_map :: "('a \<Rightarrow> error + 'b) \<Rightarrow> 'a list \<Rightarrow> error + 'b list" where
  "executor_map f [] = Inr []"
| "executor_map f (x # xs) =
     (case f x of
        Inl e \<Rightarrow> Inl e
      | Inr y \<Rightarrow>
          (case executor_map f xs of
             Inl e \<Rightarrow> Inl e
           | Inr ys \<Rightarrow> Inr (y # ys)))"

text \<open>
  The local variables of \<^verbatim>\<open>extractJobs\<close> that outlive its \<^verbatim>\<open>try\<close> statement. \<^verbatim>\<open>results\<close> is
  bound before the \<^verbatim>\<open>try\<close>, \<^verbatim>\<open>total_cards\<close> inside it: \<open>None\<close> is the unbound variable.
\<close>

record locals =
  results :: "job list"
  total_cards :: "nat option"

text \<open>
  The \<^verbatim>\<open>try\<close> statement either returns from the function (the \<^verbatim>\<open>return\<close> for an empty
  batch), or goes on to the statement behind it, at the end of its body or from its
  \<^verbatim>\<open>except\<close> clause, which catches everything and does nothing.
\<close>

datatype try_outcome = Returned "job list \<times> nat" | Continues locals

definition extractJobs_try :: "web \<Rightarrow> string list \<Rightarrow> string list \<Rightarrow> locals \<Rightarrow> try_outcome" where
  "extractJobs_try requests_get urls plavras st =
     (case executor_map (get_job_cards requests_get) urls of
        Inl e \<Rightarrow> Continues st
      | Inr cards2 \<Rightarrow>
          (let cards = concat cards2;
               st1 = st\<lparr>total_cards := Some (length cards)\<rparr>
           in if length cards = 0 then Returned (results st1, 0)
              else (case executor_map (\<lambda>entry. get_job_info requests_get entry plavras) cards of
                      Inl e \<Rightarrow> Continues st1
                    | Inr job_data_list \<Rightarrow>
                        Continues (st1\<lparr>results :=
                          foldl (\<lambda>rs job. rs @ [job]) (results st1) job_data_list\<rparr>))))"

definition extractJobs :: "web \<Rightarrow> string list \<Rightarrow> string list \<Rightarrow> error + job list \<times> nat" where
  "extractJobs requests_get urls plavras =
     (case extractJobs_try requests_get urls plavras \<lparr>results = [], total_cards = None\<rparr> of
        Returned r \<Rightarrow> Inr r
      | Continues st \<Rightarrow>
          (case total_cards st of
             None \<Rightarrow> Inl UnboundLocalError
           | Some n \<Rightarrow> Inr (results st, n)))"

subsection \<open>The time filter\<close>

text \<open>
  \<^verbatim>\<open>TPeriod\<close> is bound in the four branches of the \<^verbatim>\<open>if\<close> chain, which has no
  \<^verbatim>\<open>else\<close>; \<^verbatim>\<open>return TPeriod\<close> reads it.
\<close>

definition create_time_param :: "string \<Rightarrow> error + string" where
  "create_time_param time =
     (let TPeriod =
            (if time = ''past 24 hours'' then Some ''&f_TPR=r86400''
             else if time = ''past week'' then Some ''&f_TPR=r604800''
             else if time = ''past month'' then Some ''&f_TPR=r2592000''
             else if time = ''any time'' then Some ''''
             else None)
      in case TPeriod of
           None \<Rightarrow> Inl UnboundLocalError
         | Some s \<Rightarrow> Inr s)"

section \<open>Example inputs\<close>

text \<open>
  Two listing entries: one with every field, one without the company; and a third one
  without the title element.
\<close>

definition card_full :: card where
  "card_full =
     \<lparr>title_h3 = Some '' Python Developer '', anchor = Some (Some ''view/1''),
      location_span = Some ''Recife, Brazil'', subtitle_h4 = Some ''Acme'',
      time_tag = Some ''2 days ago''\<rparr>"

definition card_no_company :: card where
  "card_no_company =
     \<lparr>title_h3 = Some ''Data Engineer'', anchor = Some (Some ''view/2''),
      location_span = Some ''Brazil'', subtitle_h4 = None,
      time_tag = Some ''1 week ago''\<rparr>"

definition card_untitled :: card where
  "card_untitled =
     \<lparr>title_h3 = None, anchor = Some (Some ''view/2''),
      location_span = Some ''Brazil'', subtitle_h4 = Some ''Initech'',
      time_tag = Some ''1 week ago''\<rparr>"

text \<open>
  The end-to-end example of the specification: one search page with the first two entries;
  the first posting has a description, the page of the second has no description element.
  Every other address is unreachable.
\<close>

definition listing_page :: "card list \<Rightarrow> soup" where
  "listing_page cards = \<lparr>results_list = Some cards, all_li = cards, description_div = None\<rparr>"

definition posting_page :: "string option \<Rightarrow> soup" where
  "posting_page d = \<lparr>results_list = None, all_li = [], description_div = d\<rparr>"

definition example_web :: web where
  "example_web url =
     (if url = ''search'' then Inr (listing_page [card_full, card_no_company])
      else if url = ''view/1'' then Inr (posting_page (Some ''I love python and more python''))
      else if url = ''view/2'' then Inr (posting_page None)
      else Inl ConnectionError)"

text \<open>The same site, the second entry of the search page having lost its title.\<close>

definition untitled_web :: web where
  "untitled_web url =
     (if url = ''search'' then Inr (listing_page [card_full, card_untitled])
      else example_web url)"

text \<open>A total network outage: every request raises.\<close>

definition outage_web :: web where
  "outage_web url = Inl ConnectionError"

section \<open>Auxiliary facts\<close>

lemma fl_zero: "fl 0 = 0"
  by (simp add: fl_def)

lemma float_mul_zero: "float_mul 0 y = 0"
  by (simp add: float_mul_def fl_zero)

lemma counter_getitem_foldl:
  "counter_getitem (foldl counter_incr d ws) w = counter_getitem d w + count_list ws w"
proof (induction ws arbitrary: d)
  case Nil
  show ?case by simp
next
  case (Cons v ws)
  have "counter_getitem (counter_incr d v) w = counter_getitem d w + (if v = w then 1 else 0)"
    by (simp add: counter_getitem_def counter_incr_def split: option.splits)
  with Cons.IH [of "counter_incr d v"] show ?case by simp
qed

lemma counter_getitem_Counter: "counter_getitem (Counter ws) w = count_list ws w"
  by (simp add: Counter_def counter_getitem_foldl) (simp add: counter_getitem_def)

lemma cumulative_frequency_Cons:
  "cumulative_frequency wc (k # ks) = counter_getitem wc (lower k) + cumulative_frequency wc ks"
  by (simp add: cumulative_frequency_def)

lemma cumulative_frequency_app:
  "cumulative_frequency wc (ks @ ks') = cumulative_frequency wc ks + cumulative_frequency wc ks'"
  by (simp add: cumulative_frequency_def)

lemma cumulative_frequency_replicate:
  "cumulative_frequency wc (replicate n k) = n * counter_getitem wc (lower k)"
  by (induction n) (simp_all add: cumulative_frequency_def)

text \<open>The score as a function of the two counts.\<close>

lemma rate_text_counts:
  "rate_text plavra text =
     (if findall_words (lower text) = [] then Inr 0
      else Inr (float_mul
             (fl (of_nat (cumulative_frequency (Counter (findall_words (lower text))) plavra)
                  / of_nat (length (findall_words (lower text))))) 5))"
  by (simp add: rate_text_def Let_def truediv_def float_mul_zero)

lemma rate_text_cong:
  "lower text = lower text' \<Longrightarrow> map lower plavra = map lower plavra'
     \<Longrightarrow> rate_text plavra text = rate_text plavra' text'"
proof -
  assume t: "lower text = lower text'" and p: "map lower plavra = map lower plavra'"
  have "cumulative_frequency wc plavra = cumulative_frequency wc plavra'" for wc
  proof -
    have "map (\<lambda>word. counter_getitem wc (lower word)) plavra
        = map (counter_getitem wc) (map lower plavra)" by simp
    also have "\<dots> = map (counter_getitem wc) (map lower plavra')" by (simp only: p)
    also have "\<dots> = map (\<lambda>word. counter_getitem wc (lower word)) plavra'" by simp
    finally show ?thesis by (simp only: cumulative_frequency_def)
  qed
  then show ?thesis by (simp add: rate_text_counts t)
qed

lemma lower_char_idem: "lower_char (lower_char c) = lower_char c"
proof (cases "is_upper_cp (of_char c)")
  case True
  then have "(of_char (char_of (of_char c + 32 :: nat)) :: nat) = of_char c + 32"
    by (auto simp: is_upper_cp_def)
  with True show ?thesis by (auto simp: lower_char_def Let_def is_upper_cp_def)
next
  case False
  then show ?thesis by (simp add: lower_char_def)
qed

lemma lower_idem: "lower (lower s) = lower s"
  by (simp add: lower_def lower_char_idem)

lemma executor_map_length: "executor_map f xs = Inr ys \<Longrightarrow> length ys = length xs"
  by (induction xs arbitrary: ys) (auto split: sum.splits)

lemma executor_map_fails:
  "x \<in> set xs \<Longrightarrow> f x = Inl e \<Longrightarrow> \<exists>e'. executor_map f xs = Inl e'"
  by (induction xs) (auto split: sum.splits)

lemma foldl_snoc: "foldl (\<lambda>rs job. rs @ [job]) acc xs = acc @ xs"
  by (induction xs arbitrary: acc) simp_all

text \<open>When no entry fails, every entry yields its record, in the order of the listing.\<close>

lemma extractJobs_all_entries_succeed:
  assumes "executor_map (get_job_cards requests_get) urls = Inr cards2"
    and "executor_map (\<lambda>entry. get_job_info requests_get entry plavras) (concat cards2) = Inr jobs"
  shows "extractJobs requests_get urls plavras = Inr (jobs, length (concat cards2))"
proof (cases "concat cards2 = []")
  case True
  with assms(2) have "jobs = []" by simp
  with True assms(1) show ?thesis
    by (simp add: extractJobs_def extractJobs_try_def)
next
  case False
  with assms show ?thesis
    by (simp add: extractJobs_def extractJobs_try_def Let_def foldl_snoc
          del: concat_eq_Nil_conv)
qed

subsection \<open>The error of one rounding\<close>

text \<open>
  Rounding to the nearest float changes a number by at most \<open>2\<^sup>-\<^sup>5\<^sup>3\<close> of its size: the
  exponent that \<open>ilog2\<close> computes is not above the number, and rounding the significand to
  an integer moves it by at most one half.
\<close>

lemma pow2_powi: "pow2 e = power_int 2 e"
proof (cases "0 \<le> e")
  case True
  then show ?thesis by (simp add: pow2_def power_int_def)
next
  case False
  have "(1::rat) / 2 ^ nat (- e) = inverse 2 ^ nat (- e)"
    by (simp add: power_one_over inverse_eq_divide)
  with False show ?thesis by (simp only: pow2_def power_int_def if_False)
qed

lemma pow2_pos: "0 < pow2 e"
  by (simp add: pow2_def)

lemma pow2_add: "pow2 (i + j) = pow2 i * pow2 j"
  by (simp add: pow2_powi power_int_add)

lemma pow2_nat: "0 \<le> e \<Longrightarrow> pow2 e = 2 ^ nat e"
  by (simp add: pow2_def)

lemma round_half_even_error: "\<bar>of_int (round_half_even q) - q\<bar> \<le> 1 / 2"
proof -
  have "of_int \<lfloor>q\<rfloor> \<le> q" and "q < of_int \<lfloor>q\<rfloor> + 1" by linarith+
  then show ?thesis
    by (auto simp: round_half_even_def Let_def)
qed

lemma bit_length_bounds:
  "0 < n \<Longrightarrow> 1 \<le> bit_length n \<and> 2 ^ nat (bit_length n - 1) \<le> n \<and> n < 2 ^ nat (bit_length n)"
proof (induction n rule: bit_length.induct)
  case (1 n)
  show ?case
  proof (cases "n = 1")
    case True
    have "bit_length 1 = 1"
      by (simp add: bit_length.simps [of 1] bit_length.simps [of 0])
    with True show ?thesis by simp
  next
    case False
    with "1.prems" have m: "0 < n div 2" by simp
    from "1.prems" have "\<not> n \<le> 0" by simp
    from "1.IH" [OF this m]
    have b: "1 \<le> bit_length (n div 2)"
      and lo: "2 ^ nat (bit_length (n div 2) - 1) \<le> n div 2"
      and hi: "n div 2 < 2 ^ nat (bit_length (n div 2))" by simp_all
    have bl: "bit_length n = 1 + bit_length (n div 2)"
      using "1.prems" by (simp add: bit_length.simps [of n])
    from b have s: "nat (bit_length (n div 2)) = Suc (nat (bit_length (n div 2) - 1))"
      by simp
    have p: "(2::int) ^ nat (1 + bit_length (n div 2)) = 2 * 2 ^ nat (bit_length (n div 2))"
      using b by (simp add: nat_add_distrib)
    have "(2::int) ^ nat (bit_length (n div 2)) = 2 * 2 ^ nat (bit_length (n div 2) - 1)"
      by (subst s) simp
    with lo have "2 ^ nat (bit_length (n div 2)) \<le> 2 * (n div 2)" by simp
    also have "\<dots> \<le> n" by simp
    finally have lo': "2 ^ nat (bit_length n - 1) \<le> n" by (simp add: bl)
    from hi have "n div 2 + 1 \<le> 2 ^ nat (bit_length (n div 2))" by simp
    then have "2 * (n div 2) + 2 \<le> 2 ^ nat (bit_length n)" by (simp add: bl p)
    moreover have "n < 2 * (n div 2) + 2" by presburger
    ultimately have hi': "n < 2 ^ nat (bit_length n)" by linarith
    from b lo' hi' show ?thesis by (simp add: bl)
  qed
qed

lemma ilog2_le:
  assumes "0 < x"
  shows "pow2 (ilog2 x) \<le> x"
proof -
  obtain a b where q: "quotient_of x = (a, b)" by (cases "quotient_of x")
  then have b: "0 < b" and x: "x = of_int a / of_int b"
    by (simp_all add: quotient_of_denom_pos quotient_of_div)
  from assms b x have a: "0 < a" by (simp add: zero_less_divide_iff)
  define d where "d = bit_length a - bit_length b"
  from bit_length_bounds [OF a] bit_length_bounds [OF b]
  have a1: "1 \<le> bit_length a" and alo: "2 ^ nat (bit_length a - 1) \<le> a"
    and b1: "1 \<le> bit_length b" and bhi: "b < 2 ^ nat (bit_length b)" by simp_all
  have "d - 1 = (bit_length a - 1) + (- bit_length b)" by (simp add: d_def)
  then have "pow2 (d - 1) = pow2 ((bit_length a - 1) + (- bit_length b))" by (rule arg_cong)
  also have "\<dots> = pow2 (bit_length a - 1) * pow2 (- bit_length b)" by (rule pow2_add)
  also have "\<dots> = 2 ^ nat (bit_length a - 1) / 2 ^ nat (bit_length b)"
    using a1 b1 by (simp add: pow2_def)
  also have "\<dots> \<le> of_int a / of_int b"
  proof (rule frac_le)
    from a show "(0::rat) \<le> of_int a" by simp
    from alo have "(of_int (2 ^ nat (bit_length a - 1)) :: rat) \<le> of_int a"
      by (simp only: of_int_le_iff)
    then show "(2::rat) ^ nat (bit_length a - 1) \<le> of_int a" by simp
    from b show "(0::rat) < of_int b" by simp
    from bhi have "(of_int b :: rat) \<le> of_int (2 ^ nat (bit_length b))"
      by (simp only: of_int_le_iff)
    then show "(of_int b :: rat) \<le> 2 ^ nat (bit_length b)" by simp
  qed
  finally have "pow2 (d - 1) \<le> x" by (simp add: x)
  then show ?thesis
    by (simp add: ilog2_def q d_def Let_def)
qed

lemma fl_error: "\<bar>fl x - x\<bar> \<le> \<bar>x\<bar> / 2 ^ 53"
proof (cases "x = 0")
  case True
  then show ?thesis by (simp add: fl_def)
next
  case False
  define e where "e = ilog2 \<bar>x\<bar>"
  define u where "u = pow2 (e - 52)"
  have u: "0 < u" by (simp add: u_def pow2_pos)
  have fl: "fl x = of_int (round_half_even (x / u)) * u"
    using False by (simp add: fl_def e_def u_def Let_def)
  have "fl x - x = (of_int (round_half_even (x / u)) - x / u) * u"
    using u by (simp add: fl field_simps)
  then have "\<bar>fl x - x\<bar> = \<bar>of_int (round_half_even (x / u)) - x / u\<bar> * u"
    using u by (simp add: abs_mult)
  also have "\<dots> \<le> (1 / 2) * u"
    using u round_half_even_error [of "x / u"] by (intro mult_right_mono) simp_all
  also have "u = pow2 e * pow2 (- 52)"
    using pow2_add [of e "- 52"] by (simp add: u_def)
  also have "pow2 (- 52) = 1 / 2 ^ 52" by (simp add: pow2_def)
  finally have "\<bar>fl x - x\<bar> \<le> pow2 e / 2 ^ 53" by simp
  also have "\<dots> \<le> \<bar>x\<bar> / 2 ^ 53"
    using ilog2_le [of "\<bar>x\<bar>"] False by (simp add: e_def divide_right_mono)
  finally show ?thesis .
qed

lemma fl_bounds:
  assumes "0 \<le> x"
  shows "x * (9007199254740991 / 9007199254740992) \<le> fl x"
    and "fl x \<le> x * (9007199254740993 / 9007199254740992)"
proof -
  from fl_error [of x] assms have "\<bar>fl x - x\<bar> \<le> x / 9007199254740992" by simp
  then have lo: "x - x / 9007199254740992 \<le> fl x" and hi: "fl x \<le> x + x / 9007199254740992"
    by linarith+
  have "x * (9007199254740991 / 9007199254740992) = x - x / 9007199254740992" by simp
  with lo show "x * (9007199254740991 / 9007199254740992) \<le> fl x" by simp
  have "x * (9007199254740993 / 9007199254740992) = x + x / 9007199254740992" by simp
  with hi show "fl x \<le> x * (9007199254740993 / 9007199254740992)" by simp
qed

text \<open>
  A score is computed with two roundings, the float sum of two scores with a third one, so
  the sum of the scores of two keyword lists and the score of the joined list are close.
\<close>

lemma score_bounds:
  assumes "0 \<le> q"
  shows "0 \<le> float_mul (fl q) 5"
    and "q * 5 * (9007199254740991 / 9007199254740992) * (9007199254740991 / 9007199254740992)
           \<le> float_mul (fl q) 5"
    and "float_mul (fl q) 5
           \<le> q * 5 * (9007199254740993 / 9007199254740992) * (9007199254740993 / 9007199254740992)"
proof -
  from fl_bounds [OF assms]
  have f1: "q * (9007199254740991 / 9007199254740992) \<le> fl q"
    and f2: "fl q \<le> q * (9007199254740993 / 9007199254740992)" .
  from assms f1 have f0: "0 \<le> fl q * 5" by simp
  from fl_bounds [OF f0]
  have s1: "fl q * 5 * (9007199254740991 / 9007199254740992) \<le> float_mul (fl q) 5"
    and s2: "float_mul (fl q) 5 \<le> fl q * 5 * (9007199254740993 / 9007199254740992)"
    by (simp_all only: float_mul_def)
  from f0 s1 show "0 \<le> float_mul (fl q) 5" by simp
  from f1 s1 show "q * 5 * (9007199254740991 / 9007199254740992) * (9007199254740991 / 9007199254740992)
           \<le> float_mul (fl q) 5" by simp
  from f2 s2 show "float_mul (fl q) 5
           \<le> q * 5 * (9007199254740993 / 9007199254740992) * (9007199254740993 / 9007199254740992)"
    by simp
qed

lemma float_scores_add_up:
  assumes "0 \<le> q1" and "0 \<le> q2"
  shows "\<bar>float_add (float_mul (fl q1) 5) (float_mul (fl q2) 5) - float_mul (fl (q1 + q2)) 5\<bar>
           \<le> float_mul (fl (q1 + q2)) 5 / 2 ^ 50"
proof -
  define a where "a = float_mul (fl q1) 5"
  define b where "b = float_mul (fl q2) 5"
  define s where "s = float_mul (fl (q1 + q2)) 5"
  define t where "t = float_add a b"
  from assms have q: "0 \<le> q1 + q2" by simp
  note A = score_bounds [OF assms(1), folded a_def]
  note B = score_bounds [OF assms(2), folded b_def]
  note S = score_bounds [OF q, folded s_def]
  from A(1) B(1) have ab: "0 \<le> a + b" by simp
  from fl_bounds [OF ab]
  have t1: "(a + b) * (9007199254740991 / 9007199254740992) \<le> t"
    and t2: "t \<le> (a + b) * (9007199254740993 / 9007199254740992)"
    by (simp_all only: t_def float_add_def)
  have "t - s \<le> s / 2 ^ 50"
    using assms A(3) B(3) S(2) t2 by simp
  moreover have "s - t \<le> s / 2 ^ 50"
    using assms A(2) B(2) S(3) t1 by simp
  ultimately have "\<bar>t - s\<bar> \<le> s / 2 ^ 50" by linarith
  then show ?thesis by (simp only: t_def a_def b_def s_def)
qed

section \<open>Properties of the scorer\<close>

text \<open>
  Claim C1: for every keyword list and every text the score of \<^verbatim>\<open>rate_text\<close> lies in the
  interval from 0 to 5, as the docstring of \<^verbatim>\<open>rate_text\<close> says too. The code breaks it: a
  keyword that is listed twice is counted twice, while the divisor is the number of words of
  the text. For the keywords \<^verbatim>\<open>["python", "python"]\<close> and the text \<^verbatim>\<open>"python"\<close> the score
  is \<open>2 / 1 * 5 = 10\<close>.
\<close>

theorem rate_text_duplicate_keyword:
  "rate_text [''python'', ''python''] ''python'' = Inr 10"
  by code_simp

text \<open>
  Claim C5: \<^verbatim>\<open>rate_job\<close> on the description \<^verbatim>\<open>"I love python and more python"\<close> with the
  keywords \<^verbatim>\<open>["python"]\<close> returns 2, which is \<open>5 * 2 / 6\<close> rounded to the nearest integer,
  and on the description \<^verbatim>\<open>"no description specified"\<close> it returns 0.
\<close>

theorem rate_job_examples:
  "rate_job ''I love python and more python'' [''python''] = Inr 2
   \<and> py_round (5 * 2 / 6) = 2
   \<and> rate_job ''no description specified'' [''python''] = Inr 0"
  by code_simp

text \<open>
  Claim C7: keywords match whole tokens only. A keyword whose lower-case form is not one of
  the tokens of the text (it may well occur inside of a longer token) contributes nothing:
  the score is the one of the other keywords, and the score of that keyword alone is 0. The
  instance of the claim, \<^verbatim>\<open>rate_text(["cat"], "concatenate") == 0\<close>, follows it.
\<close>

theorem rate_text_whole_tokens:
  assumes "lower k \<notin> set (findall_words (lower text))"
  shows "rate_text (k # plavra) text = rate_text plavra text \<and> rate_text [k] text = Inr 0"
proof -
  from assms have "counter_getitem (Counter (findall_words (lower text))) (lower k) = 0"
    by (simp add: counter_getitem_Counter count_list_0_iff)
  then have c: "cumulative_frequency (Counter (findall_words (lower text))) (k # ks)
      = cumulative_frequency (Counter (findall_words (lower text))) ks" for ks
    by (simp add: cumulative_frequency_Cons)
  have "cumulative_frequency (Counter (findall_words (lower text))) [] = 0"
    by (simp add: cumulative_frequency_def)
  with c show ?thesis
    by (simp add: rate_text_counts fl_zero float_mul_zero)
qed

theorem rate_text_whole_tokens_witness:
  "lower ''cat'' \<notin> set (findall_words (lower ''concatenate''))
   \<and> rate_text [''cat''] ''concatenate'' = Inr 0"
proof -
  have h: "lower ''cat'' \<notin> set (findall_words (lower ''concatenate''))"
    by code_simp
  from rate_text_whole_tokens [OF h, of "[]"] h show ?thesis by blast
qed

text \<open>
  Claim C8, as it is stated, fails: the score is not the same for every change of case.
  \<^verbatim>\<open>rate_text\<close> compares the \<^verbatim>\<open>str.lower()\<close> forms, and the upper-case form of the sharp s
  (code point 223) is \<^verbatim>\<open>SS\<close>, whose lower-case form is \<^verbatim>\<open>ss\<close>: the keyword sharp s scores 5
  on the text sharp s and 0 on the same text in upper case.
\<close>

theorem rate_text_sharp_s_upper_case:
  "rate_text [[CHR 0xDF]] [CHR 0xDF] = Inr 5
   \<and> rate_text [[CHR 0xDF]] ''SS'' = Inr 0
   \<and> lower ''SS'' \<noteq> lower [CHR 0xDF]"
  by code_simp

text \<open>
  Claim C8, amended: the score depends on the text and on the keywords through their
  \<^verbatim>\<open>str.lower()\<close> forms only. Two texts with the same lower-case form, with keyword lists
  whose lower-case forms are the same one by one, get the same score; the lower-cased text
  with the lower-cased keywords gets the score of the original ones. The instance of the claim,
  \<^verbatim>\<open>rate_text(["Go"], "go go GO") == rate_text(["go"], "GO go go")\<close>, follows it.
\<close>

theorem rate_text_same_lower_forms:
  "(lower text' = lower text \<and> map lower plavra' = map lower plavra
      \<longrightarrow> rate_text plavra' text' = rate_text plavra text)
   \<and> rate_text (map lower plavra) (lower text) = rate_text plavra text"
proof -
  have "map lower (map lower plavra) = map lower plavra"
    by (simp add: lower_idem)
  from rate_text_cong [OF lower_idem this]
  have "rate_text (map lower plavra) (lower text) = rate_text plavra text" .
  moreover have "rate_text plavra' text' = rate_text plavra text"
    if "lower text' = lower text" and "map lower plavra' = map lower plavra"
    using that by (rule rate_text_cong)
  ultimately show ?thesis by blast
qed

theorem rate_text_same_lower_forms_witness:
  "lower ''go go GO'' = lower ''GO go go'' \<and> map lower [''Go''] = map lower [''go'']
   \<and> rate_text [''Go''] ''go go GO'' = rate_text [''go''] ''GO go go''"
proof -
  have h1: "lower ''go go GO'' = lower ''GO go go''" by code_simp
  have h2: "map lower [''Go''] = map lower [''go'']" by code_simp
  from rate_text_same_lower_forms [of "''go go GO''" "''GO go go''" "[''Go'']" "[''go'']"] h1 h2
  show ?thesis by blast
qed

text \<open>
  Claim C9: \<^verbatim>\<open>rate_text\<close> never raises \<^verbatim>\<open>ZeroDivisionError\<close>: for a text without tokens (the
  empty text, for one) the division is not evaluated and the score is 0, whatever the
  keywords are.
\<close>

theorem rate_text_no_tokens:
  "rate_text plavra text \<noteq> Inl ZeroDivisionError
   \<and> (findall_words (lower text) = [] \<longrightarrow> rate_text plavra text = Inr 0)"
  by (simp add: rate_text_counts)

theorem rate_text_no_tokens_witness:
  "findall_words (lower '''') = [] \<and> rate_text [''python''] '''' = Inr 0
   \<and> rate_text [''python''] '''' \<noteq> Inl ZeroDivisionError"
proof -
  have h: "findall_words (lower '''') = []" by code_simp
  from rate_text_no_tokens [of "[''python'']" "''''"] h show ?thesis by blast
qed

text \<open>
  Claim C10, as it is stated, fails: the score of \<open>p1 @ p2\<close> is not always the sum of the
  scores of \<open>p1\<close> and of \<open>p2\<close>, because every score is a rounded float. On the text
  \<^verbatim>\<open>"a a b b b c"\<close> the keywords \<^verbatim>\<open>["a", "b"]\<close> score \<^verbatim>\<open>5/6*5 = 4.166666666666667\<close>, while
  \<^verbatim>\<open>["a"]\<close> scores \<^verbatim>\<open>1.6666666666666665\<close> and \<^verbatim>\<open>["b"]\<close> scores \<^verbatim>\<open>2.5\<close>, whose float sum is
  \<^verbatim>\<open>4.166666666666666\<close>.
\<close>

theorem rate_text_not_additive:
  "rate_text ([''a''] @ [''b'']) ''a a b b b c'' = Inr (4691249611844267 / 1125899906842624)
   \<and> rate_text [''a''] ''a a b b b c'' = Inr (3752999689475413 / 2251799813685248)
   \<and> rate_text [''b''] ''a a b b b c'' = Inr (5 / 2)
   \<and> float_add (3752999689475413 / 2251799813685248) (5 / 2)
        = 2345624805922133 / 562949953421312
   \<and> (2345624805922133 / 562949953421312 :: pyfloat)
        \<noteq> 4691249611844267 / 1125899906842624"
  by code_simp

text \<open>
  Claim C10, amended: the score is additive in the keyword list up to the rounding of the
  floats. For every text and all keyword lists \<open>p1\<close> and \<open>p2\<close> the three scores are
  returned, and the float sum of the scores of \<open>p1\<close> and \<open>p2\<close> differs from the score of
  \<open>p1 @ p2\<close> by at most \<open>2\<^sup>-\<^sup>5\<^sup>0\<close> of that score. A keyword that is listed \<open>k\<close> times
  contributes \<open>k\<close> times its number of occurrences in the text: the score of the list is
  the float \<^verbatim>\<open>(k * count) / len(words) * 5\<close>, and 0 for a text without words.
\<close>

theorem rate_text_additive_up_to_rounding:
  "(\<exists>a b s. rate_text p1 text = Inr a \<and> rate_text p2 text = Inr b
             \<and> rate_text (p1 @ p2) text = Inr s
             \<and> \<bar>float_add a b - s\<bar> \<le> s / 2 ^ 50)
   \<and> rate_text (replicate k w) text
       = (if findall_words (lower text) = [] then Inr 0
          else Inr (float_mul
                 (fl (of_nat (k * count_list (findall_words (lower text)) (lower w))
                      / of_nat (length (findall_words (lower text))))) 5))"
proof (cases "findall_words (lower text) = []")
  case True
  then show ?thesis
    by (simp add: rate_text_counts float_add_def fl_zero)
next
  case False
  define n :: rat where "n = of_nat (length (findall_words (lower text)))"
  define c1 :: rat where
    "c1 = of_nat (cumulative_frequency (Counter (findall_words (lower text))) p1)"
  define c2 :: rat where
    "c2 = of_nat (cumulative_frequency (Counter (findall_words (lower text))) p2)"
  from False have n: "0 < n" by (simp add: n_def)
  have q1: "0 \<le> c1 / n" and q2: "0 \<le> c2 / n" using n by (simp_all add: c1_def c2_def)
  have sum: "of_nat (cumulative_frequency (Counter (findall_words (lower text))) (p1 @ p2)) / n
               = c1 / n + c2 / n"
    by (simp add: cumulative_frequency_app c1_def c2_def add_divide_distrib)
  have r1: "rate_text p1 text = Inr (float_mul (fl (c1 / n)) 5)"
    and r2: "rate_text p2 text = Inr (float_mul (fl (c2 / n)) 5)"
    using False by (simp_all add: rate_text_counts c1_def c2_def n_def)
  have r: "rate_text (p1 @ p2) text = Inr (float_mul (fl (c1 / n + c2 / n)) 5)"
    using False sum by (simp add: rate_text_counts n_def)
  have "cumulative_frequency (Counter (findall_words (lower text))) (replicate k w)
          = k * count_list (findall_words (lower text)) (lower w)"
    by (simp add: cumulative_frequency_replicate counter_getitem_Counter)
  then have rk: "rate_text (replicate k w) text
       = Inr (float_mul
                 (fl (of_nat (k * count_list (findall_words (lower text)) (lower w))
                      / of_nat (length (findall_words (lower text))))) 5)"
    using False by (simp add: rate_text_counts)
  from float_scores_add_up [OF q1 q2] r1 r2 r rk False show ?thesis by simp
qed

theorem rate_text_additive_up_to_rounding_witness:
  "rate_text [''a''] ''a a b b b c'' = Inr (3752999689475413 / 2251799813685248)
   \<and> rate_text [''b''] ''a a b b b c'' = Inr (5 / 2)
   \<and> rate_text ([''a''] @ [''b'']) ''a a b b b c'' = Inr (4691249611844267 / 1125899906842624)
   \<and> \<bar>float_add (3752999689475413 / 2251799813685248) (5 / 2)
        - 4691249611844267 / 1125899906842624\<bar>
       \<le> (4691249611844267 / 1125899906842624) / 2 ^ 50
   \<and> rate_text (replicate 2 ''b'') ''a a b b b c'' = Inr 5"
proof -
  have x: "rate_text [''a''] ''a a b b b c'' = Inr (3752999689475413 / 2251799813685248)"
    by code_simp
  have y: "rate_text [''b''] ''a a b b b c'' = Inr (5 / 2)"
    by code_simp
  have z: "rate_text ([''a''] @ [''b'']) ''a a b b b c''
             = Inr (4691249611844267 / 1125899906842624)"
    by code_simp
  have v: "(if findall_words (lower ''a a b b b c'') = [] then Inr 0
          else Inr (float_mul
                 (fl (of_nat (2 * count_list (findall_words (lower ''a a b b b c'')) (lower ''b''))
                      / of_nat (length (findall_words (lower ''a a b b b c''))))) 5))
         = (Inr 5 :: error + pyfloat)"
    by code_simp
  note inst = rate_text_additive_up_to_rounding [of "[''a'']" "''a a b b b c''" "[''b'']" 2 "''b''"]
  from inst obtain a b s where
    ra: "rate_text [''a''] ''a a b b b c'' = Inr a"
    and rb: "rate_text [''b''] ''a a b b b c'' = Inr b"
    and rs: "rate_text ([''a''] @ [''b'']) ''a a b b b c'' = Inr s"
    and close: "\<bar>float_add a b - s\<bar> \<le> s / 2 ^ 50"
    by blast
  note ea = Inr_inject [OF trans [OF sym [OF ra] x]]
  note eb = Inr_inject [OF trans [OF sym [OF rb] y]]
  note es = Inr_inject [OF trans [OF sym [OF rs] z]]
  from close have bound: "\<bar>float_add (3752999689475413 / 2251799813685248) (5 / 2)
        - 4691249611844267 / 1125899906842624\<bar>
       \<le> (4691249611844267 / 1125899906842624) / 2 ^ 50"
    by (simp only: ea eb es)
  from inst v have "rate_text (replicate 2 ''b'') ''a a b b b c'' = Inr 5"
    by simp
  with x y z bound show ?thesis by blast
qed

section \<open>Properties of the pipeline\<close>

text \<open>
  Claim C2, as it is stated, fails: an entry without title does not leave its siblings
  alone. On the search page with the entries \<open>card_full\<close> and \<open>card_untitled\<close> the first
  entry yields a record when \<^verbatim>\<open>get_job_info\<close> processes it, the second one raises, and
  \<^verbatim>\<open>extractJobs\<close> returns no record at all, with the total count 2: \<^verbatim>\<open>list(job_data)\<close> raises
  before any record is appended to \<^verbatim>\<open>results\<close>.
\<close>

theorem extractJobs_untitled_entry_batch:
  "get_job_info untitled_web card_full [''python'']
     = Inr \<lparr>jobTitle = ''Python Developer'', companyName = ''Acme'',
            dayPosted = Str ''2 days ago'', jobURL = ''view/1'', rating = 2,
            location = ''Recife, Brazil'', jobDesc = ''I love python and more python''\<rparr>
   \<and> get_job_info untitled_web card_untitled [''python''] = Inl AttributeError
   \<and> extractJobs untitled_web [''search''] [''python''] = Inr ([], 2)"
  by code_simp

text \<open>
  Claim C2, amended: when the listing pages are fetched and \<^verbatim>\<open>get_job_info\<close> fails for an
  entry of the batch, that entry is not in the returned records, and no sibling entry is:
  \<^verbatim>\<open>extractJobs\<close> returns the empty list of records, together with the number of all entries
  of the batch.
\<close>

theorem extractJobs_failed_entry_empties_records:
  assumes "executor_map (get_job_cards requests_get) urls = Inr cards2"
    and "entry \<in> set (concat cards2)"
    and "get_job_info requests_get entry plavras = Inl e"
  shows "extractJobs requests_get urls plavras = Inr ([], length (concat cards2))"
proof -
  have ne: "concat cards2 \<noteq> []"
  proof
    assume empty: "concat cards2 = []"
    from assms(2) show False unfolding empty by simp
  qed
  from executor_map_fails [OF assms(2), of "\<lambda>entry. get_job_info requests_get entry plavras" e]
    assms(3)
  obtain e' where
    "executor_map (\<lambda>entry. get_job_info requests_get entry plavras) (concat cards2) = Inl e'"
    by blast
  with assms(1) ne show ?thesis
    by (simp add: extractJobs_def extractJobs_try_def Let_def)
qed

theorem extractJobs_failed_entry_empties_records_witness:
  "executor_map (get_job_cards untitled_web) [''search''] = Inr [[card_full, card_untitled]]
   \<and> card_untitled \<in> set (concat [[card_full, card_untitled]])
   \<and> get_job_info untitled_web card_untitled [''python''] = Inl AttributeError
   \<and> extractJobs untitled_web [''search''] [''python''] = Inr ([], 2)"
proof -
  have h1: "executor_map (get_job_cards untitled_web) [''search'']
              = Inr [[card_full, card_untitled]]"
    by code_simp
  have h2: "card_untitled \<in> set (concat [[card_full, card_untitled]])"
    by simp
  have h3: "get_job_info untitled_web card_untitled [''python''] = Inl AttributeError"
    by code_simp
  from extractJobs_failed_entry_empties_records [OF h1 h2 h3]
  have "extractJobs untitled_web [''search''] [''python''] = Inr ([], 2)"
    by simp
  with h1 h2 h3 show ?thesis by blast
qed

text \<open>
  Claim C3: when the whole pipeline fails, as in a network outage where every listing fetch
  raises, \<^verbatim>\<open>extractJobs\<close> returns a valid, degraded result such as \<^verbatim>\<open>([], 0)\<close> and raises
  nothing. The code breaks it: the \<^verbatim>\<open>except\<close> clause swallows the failure of the fetch, but
  \<^verbatim>\<open>total_cards\<close> is bound inside of the \<^verbatim>\<open>try\<close> only, and the \<^verbatim>\<open>return\<close> statement raises
  \<^verbatim>\<open>UnboundLocalError\<close>.
\<close>

theorem extractJobs_outage_raises:
  "extractJobs outage_web [''search''] [''python''] = Inl UnboundLocalError"
  by code_simp

text \<open>
  Claim C4: whenever \<^verbatim>\<open>extractJobs\<close> returns a pair of records and total count, the total
  count is at least the number of records.
\<close>

theorem extractJobs_total_ge_records:
  "extractJobs requests_get urls plavras = Inr (records, totalCount)
     \<Longrightarrow> length records \<le> totalCount"
  by (auto simp: extractJobs_def extractJobs_try_def Let_def foldl_snoc
        split: sum.splits if_splits option.splits dest: executor_map_length)

theorem extractJobs_total_ge_records_witness:
  "extractJobs example_web [''search''] [''python'']
     = Inr ([\<lparr>jobTitle = ''Python Developer'', companyName = ''Acme'',
               dayPosted = Str ''2 days ago'', jobURL = ''view/1'', rating = 2,
               location = ''Recife, Brazil'', jobDesc = ''I love python and more python''\<rparr>,
             \<lparr>jobTitle = ''Data Engineer'', companyName = ''Not specified'',
               dayPosted = Str ''1 week ago'', jobURL = ''view/2'', rating = 0,
               location = ''Brazil'', jobDesc = ''no description specified''\<rparr>], 2)
   \<and> length [\<lparr>jobTitle = ''Python Developer'', companyName = ''Acme'',
               dayPosted = Str ''2 days ago'', jobURL = ''view/1'', rating = 2,
               location = ''Recife, Brazil'', jobDesc = ''I love python and more python''\<rparr>,
             \<lparr>jobTitle = ''Data Engineer'', companyName = ''Not specified'',
               dayPosted = Str ''1 week ago'', jobURL = ''view/2'', rating = 0,
               location = ''Brazil'', jobDesc = ''no description specified''\<rparr>] \<le> (2::nat)"
proof -
  have h: "extractJobs example_web [''search''] [''python'']
     = Inr ([\<lparr>jobTitle = ''Python Developer'', companyName = ''Acme'',
               dayPosted = Str ''2 days ago'', jobURL = ''view/1'', rating = 2,
               location = ''Recife, Brazil'', jobDesc = ''I love python and more python''\<rparr>,
             \<lparr>jobTitle = ''Data Engineer'', companyName = ''Not specified'',
               dayPosted = Str ''1 week ago'', jobURL = ''view/2'', rating = 0,
               location = ''Brazil'', jobDesc = ''no description specified''\<rparr>], 2)"
    by code_simp
  from extractJobs_total_ge_records [OF h] h show ?thesis by blast
qed

text \<open>
  Claim C6: \<^verbatim>\<open>create_time_param\<close> maps the four recognized literals to their parameters and
  gives an empty time filter for every other value, without failing. The code breaks the
  second half: the \<^verbatim>\<open>if\<close> chain has no \<^verbatim>\<open>else\<close> branch, and for a value such as
  \<^verbatim>\<open>"past year"\<close> the \<^verbatim>\<open>return\<close> statement raises \<^verbatim>\<open>UnboundLocalError\<close>.
\<close>

theorem create_time_param_unrecognized:
  "create_time_param ''past year'' = Inl UnboundLocalError"
  by code_simp

text \<open>The four recognized literals are mapped as the claim says.\<close>

lemma create_time_param_recognized:
  "create_time_param ''past 24 hours'' = Inr ''&f_TPR=r86400''
   \<and> create_time_param ''past week'' = Inr ''&f_TPR=r604800''
   \<and> create_time_param ''past month'' = Inr ''&f_TPR=r2592000''
   \<and> create_time_param ''any time'' = Inr ''''"
  by (simp add: create_time_param_def)

end
